theory Spec2Isabelle
  imports Complex_Main
begin

section \<open>Floating-point values as pandas and Python see them\<close>

text \<open>
  The screener computes on \<^verbatim>\<open>float64\<close> columns. A value is a finite number, one of
  the two infinities, or NaN. Arithmetic and comparisons follow IEEE 754 as numpy applies
  them to a Series: nothing raises, NaN propagates, every comparison with NaN is false.
  In the column operations (\<^verbatim>\<open>diff\<close>, \<^verbatim>\<open>rolling(...).mean()\<close>, the quotient of
  \<^verbatim>\<open>calculate_rsi\<close>) a finite value is an exact real: the binary rounding of each
  operation is not represented there, and neither is the sign of zero (the only place of
  \<^verbatim>\<open>calculate_rsi\<close> where it could matter is the sign of an infinite \<^verbatim>\<open>rs\<close>,
  and lemma \<open>rsi_of_infinite_rs\<close> below shows both signs give the same RSI).
  The scalar operations that fill a row of the result, \<^verbatim>\<open>roe * 100\<close> and the three
  calls of \<^verbatim>\<open>round\<close>, round to the nearest binary64 number: see \<open>float64\<close> below.
\<close>

datatype pyfloat = Fin real | PInf | NInf | NaN

fun py_neg :: "pyfloat \<Rightarrow> pyfloat" where
  "py_neg (Fin a) = Fin (- a)"
| "py_neg PInf = NInf"
| "py_neg NInf = PInf"
| "py_neg NaN = NaN"

fun py_add :: "pyfloat \<Rightarrow> pyfloat \<Rightarrow> pyfloat" where
  "py_add NaN _ = NaN"
| "py_add _ NaN = NaN"
| "py_add (Fin a) (Fin b) = Fin (a + b)"
| "py_add PInf NInf = NaN"
| "py_add NInf PInf = NaN"
| "py_add PInf _ = PInf"
| "py_add NInf _ = NInf"
| "py_add (Fin a) PInf = PInf"
| "py_add (Fin a) NInf = NInf"

definition py_sub :: "pyfloat \<Rightarrow> pyfloat \<Rightarrow> pyfloat" where
  "py_sub x y = py_add x (py_neg y)"

fun py_mul :: "pyfloat \<Rightarrow> pyfloat \<Rightarrow> pyfloat" where
  "py_mul NaN _ = NaN"
| "py_mul _ NaN = NaN"
| "py_mul (Fin a) (Fin b) = Fin (a * b)"
| "py_mul (Fin a) PInf = (if a = 0 then NaN else if 0 < a then PInf else NInf)"
| "py_mul (Fin a) NInf = (if a = 0 then NaN else if 0 < a then NInf else PInf)"
| "py_mul PInf (Fin b) = (if b = 0 then NaN else if 0 < b then PInf else NInf)"
| "py_mul NInf (Fin b) = (if b = 0 then NaN else if 0 < b then NInf else PInf)"
| "py_mul PInf PInf = PInf"
| "py_mul NInf NInf = PInf"
| "py_mul PInf NInf = NInf"
| "py_mul NInf PInf = NInf"

fun py_div :: "pyfloat \<Rightarrow> pyfloat \<Rightarrow> pyfloat" where
  "py_div NaN _ = NaN"
| "py_div _ NaN = NaN"
| "py_div (Fin a) (Fin b) =
     (if b \<noteq> 0 then Fin (a / b)
      else if a = 0 then NaN else if 0 < a then PInf else NInf)"
| "py_div (Fin a) PInf = Fin 0"
| "py_div (Fin a) NInf = Fin 0"
| "py_div PInf (Fin b) = (if 0 \<le> b then PInf else NInf)"
| "py_div NInf (Fin b) = (if 0 \<le> b then NInf else PInf)"
| "py_div PInf _ = NaN"
| "py_div NInf _ = NaN"

fun py_lt :: "pyfloat \<Rightarrow> pyfloat \<Rightarrow> bool" where
  "py_lt NaN _ = False"
| "py_lt _ NaN = False"
| "py_lt (Fin a) (Fin b) = (a < b)"
| "py_lt NInf NInf = False"
| "py_lt NInf _ = True"
| "py_lt PInf _ = False"
| "py_lt (Fin a) PInf = True"
| "py_lt (Fin a) NInf = False"

fun py_le :: "pyfloat \<Rightarrow> pyfloat \<Rightarrow> bool" where
  "py_le NaN _ = False"
| "py_le _ NaN = False"
| "py_le (Fin a) (Fin b) = (a \<le> b)"
| "py_le NInf _ = True"
| "py_le PInf PInf = True"
| "py_le PInf _ = False"
| "py_le (Fin a) PInf = True"
| "py_le (Fin a) NInf = False"

definition py_gt :: "pyfloat \<Rightarrow> pyfloat \<Rightarrow> bool" where
  "py_gt x y = py_lt y x"

definition py_ge :: "pyfloat \<Rightarrow> pyfloat \<Rightarrow> bool" where
  "py_ge x y = py_le y x"

section \<open>Rounding to binary64 and to two decimals\<close>

text \<open>The nearest integer, a tie going to the even one.\<close>

definition round_half_even :: "real \<Rightarrow> int" where
  "round_half_even y =
     (let f = \<lfloor>y\<rfloor>; d = y - of_int f
      in if d < 1 / 2 then f else if 1 / 2 < d then f + 1
         else if even f then f else f + 1)"

text \<open>
  The number of binary digits of a positive integer, and the exponent \<open>e\<close> of a positive
  real \<open>a\<close>, the one with \<open>2^e \<le> a < 2^(e+1)\<close>.
\<close>

function bit_length :: "int \<Rightarrow> int" where
  "bit_length n = (if n \<le> 0 then 0 else bit_length (n div 2) + 1)"
  by pat_completeness auto
termination
  by (relation "measure nat") auto

definition binade :: "real \<Rightarrow> int" where
  "binade a =
     (if 1 \<le> a then bit_length \<lfloor>a\<rfloor> - 1
      else if 0 < a then - bit_length (\<lceil>1 / a\<rceil> - 1)
      else - 1022)"

definition pow2 :: "int \<Rightarrow> real" where
  "pow2 k = (if 0 \<le> k then of_int (2 ^ nat k) else 1 / of_int (2 ^ nat (- k)))"

text \<open>
  The binary64 number nearest to a real, ties to the even significand: a significand of
  53 bits at the exponent of the number, exponents below \<open>-1022\<close> sharing the spacing
  \<open>2^-1074\<close> of the subnormal numbers, and an infinity when the rounded value reaches
  \<open>2^1024\<close>.
\<close>

definition float64 :: "real \<Rightarrow> pyfloat" where
  "float64 x =
     (let a = \<bar>x\<bar>;
          q = pow2 (max (binade a) (- 1022) - 52);
          v = of_int (round_half_even (a / q)) * q
      in if 1024 \<le> binade v then (if 0 < x then PInf else NInf)
         else Fin (if x < 0 then - v else v))"

text \<open>
  The product of two Python floats, as in \<^verbatim>\<open>roe * 100\<close>: the exact product rounded to
  binary64.
\<close>

definition float_mul :: "pyfloat \<Rightarrow> pyfloat \<Rightarrow> pyfloat" where
  "float_mul x y =
     (case (x, y) of (Fin a, Fin b) \<Rightarrow> float64 (a * b) | _ \<Rightarrow> py_mul x y)"

text \<open>
  \<^verbatim>\<open>round(x, 2)\<close> on a Python float: the decimal with two places nearest to the exact
  value of \<open>x\<close>, a tie going to the even last digit, converted back to binary64. NaN
  and the infinities are returned unchanged (with \<^verbatim>\<open>ndigits\<close> given, \<^verbatim>\<open>round\<close> does
  not raise on them).
\<close>

fun py_round2 :: "pyfloat \<Rightarrow> pyfloat" where
  "py_round2 (Fin a) = float64 (of_int (round_half_even (a * 100)) / 100)"
| "py_round2 x = x"

text \<open>
  \<^verbatim>\<open>round(x, 2)\<close> on a numpy \<^verbatim>\<open>float64\<close> scalar, which is what
  \<^verbatim>\<open>last_row['RSI']\<close> is: numpy multiplies by 100, rounds to the nearest integer, ties
  to even, and divides by 100, each step in binary64. NaN and the infinities come out
  unchanged.
\<close>

fun np_round2 :: "pyfloat \<Rightarrow> pyfloat" where
  "np_round2 (Fin a) =
     (case float64 (a * 100) of
        Fin y \<Rightarrow> float64 (of_int (round_half_even y) / 100)
      | z \<Rightarrow> z)"
| "np_round2 x = x"

section \<open>The pandas Series operations the screener uses\<close>

text \<open>A Series is a list of values; position \<open>t\<close> is bar \<open>t\<close>, oldest first.\<close>

text \<open>\<^verbatim>\<open>series.diff()\<close>: NaN at position 0, then the difference to the previous value.\<close>

definition diff :: "pyfloat list \<Rightarrow> pyfloat list" where
  "diff xs =
     map (\<lambda>t. if t = 0 then NaN else py_sub (xs ! t) (xs ! (t - 1))) [0..<length xs]"

text \<open>
  \<^verbatim>\<open>s.where(cond, other)\<close>: keep the value where the condition holds, \<^verbatim>\<open>other\<close>
  elsewhere. The condition is a comparison, so it is false on NaN.
\<close>

definition series_where :: "(pyfloat \<Rightarrow> bool) \<Rightarrow> pyfloat \<Rightarrow> pyfloat list \<Rightarrow> pyfloat list" where
  "series_where cond other xs = map (\<lambda>x. if cond x then x else other) xs"

text \<open>
  \<^verbatim>\<open>s.rolling(window).mean()\<close> with the default \<^verbatim>\<open>min_periods = window\<close>. The window of
  bar \<open>t\<close> is the last \<open>window\<close> positions up to and including \<open>t\<close> (fewer at the start
  of the series). pandas turns infinities into NaN first and leaves NaN out of the
  window's observations; the mean is that of the observations when there are at least
  \<^verbatim>\<open>min_periods\<close> of them, NaN otherwise.
\<close>

definition window_at :: "nat \<Rightarrow> 'a list \<Rightarrow> nat \<Rightarrow> 'a list" where
  "window_at w xs t = drop (t + 1 - w) (take (t + 1) xs)"

fun observations :: "pyfloat list \<Rightarrow> real list" where
  "observations [] = []"
| "observations (Fin a # xs) = a # observations xs"
| "observations (_ # xs) = observations xs"

definition rolling_mean :: "nat \<Rightarrow> pyfloat list \<Rightarrow> pyfloat list" where
  "rolling_mean w xs =
     map (\<lambda>t. let obs = observations (window_at w xs t)
              in if w \<le> length obs then Fin (sum_list obs / real (length obs)) else NaN)
         [0..<length xs]"

section \<open>calculate_rsi\<close>

text \<open>
  The locals \<^verbatim>\<open>gain\<close> and \<^verbatim>\<open>loss\<close> of \<^verbatim>\<open>calculate_rsi\<close>. In
  \<^verbatim>\<open>-delta.where(delta < 0, 0).rolling(window=window).mean()\<close> the unary minus applies
  to the whole rolling mean.
\<close>

definition gain :: "pyfloat list \<Rightarrow> nat \<Rightarrow> pyfloat list" where
  "gain series window =
     rolling_mean window (series_where (\<lambda>d. py_gt d (Fin 0)) (Fin 0) (diff series))"

definition loss :: "pyfloat list \<Rightarrow> nat \<Rightarrow> pyfloat list" where
  "loss series window =
     map py_neg (rolling_mean window (series_where (\<lambda>d. py_lt d (Fin 0)) (Fin 0) (diff series)))"

definition calculate_rsi :: "pyfloat list \<Rightarrow> nat \<Rightarrow> pyfloat list" where
  "calculate_rsi series window =
     (let rs = map2 py_div (gain series window) (loss series window)
      in map (\<lambda>r. py_sub (Fin 100) (py_div (Fin 100) (py_add (Fin 1) r))) rs)"

text \<open>
  The RSI as the specification words it, on a series of finite closes: the gain and the
  loss of a bar, their trailing 14-bar simple moving averages, and the three cases of the
  quotient. It is compared with \<open>calculate_rsi\<close> in the section on finite closes.
\<close>

definition spec_gain :: "real list \<Rightarrow> nat \<Rightarrow> real" where
  "spec_gain closes t = max (closes ! t - closes ! (t - 1)) 0"

definition spec_loss :: "real list \<Rightarrow> nat \<Rightarrow> real" where
  "spec_loss closes t = max (- (closes ! t - closes ! (t - 1))) 0"

definition spec_sma14 :: "(nat \<Rightarrow> real) \<Rightarrow> nat \<Rightarrow> real" where
  "spec_sma14 f t = (\<Sum>i\<leftarrow>[t - 13..<t + 1]. f i) / 14"

definition spec_rsi :: "real list \<Rightarrow> nat \<Rightarrow> pyfloat" where
  "spec_rsi closes t =
     (let avgGain = spec_sma14 (spec_gain closes) t;
          avgLoss = spec_sma14 (spec_loss closes) t
      in if avgLoss = 0 then (if 0 < avgGain then Fin 100 else NaN)
         else Fin (100 - 100 / (1 + avgGain / avgLoss)))"

section \<open>run_screener\<close>

type_synonym ticker = string

text \<open>The two columns of the price history that the screener reads.\<close>

record bar =
  Close :: pyfloat
  Volume :: pyfloat

text \<open>\<^verbatim>\<open>info.get(key)\<close> is \<open>None\<close> when the key is absent or its value is None.\<close>

record info =
  trailingPE :: "pyfloat option"
  returnOnEquity :: "pyfloat option"

text \<open>
  A call of \<^verbatim>\<open>fetch_stock_bundle\<close> returns the pair \<^verbatim>\<open>(info, hist)\<close> or raises.
  The provider, a parameter of the model, gives the outcome of the call for each ticker.
\<close>

datatype exn = Exception string

type_synonym provider = "ticker \<Rightarrow> exn + (info \<times> bar list)"

record screen_row =
  Ticker :: ticker
  PE_Ratio :: pyfloat
  ROE_pct :: pyfloat
  RSI :: pyfloat
  Volume_Spike_Today :: string
  Signal :: string

text \<open>The signal rule of lines 64 to 68, on the last row's RSI, Close and SMA20.\<close>

definition signal_of :: "pyfloat \<Rightarrow> pyfloat \<Rightarrow> pyfloat \<Rightarrow> string" where
  "signal_of rsi close sma20 =
     (if py_lt rsi (Fin 30) \<and> py_gt close sma20 then ''Buy''
      else if py_gt rsi (Fin 70) \<and> py_lt close sma20 then ''Sell''
      else ''Hold'')"

text \<open>
  The column \<^verbatim>\<open>data['Volume Spike'] = data['Volume'] > 1.5 * volume_mean\<close>, a column of
  booleans.
\<close>

definition volume_spike :: "pyfloat list \<Rightarrow> bool list" where
  "volume_spike volume =
     map2 (\<lambda>v m. py_gt v (py_mul (Fin 1.5) m)) volume (rolling_mean 20 volume)"

text \<open>
  The row appended for a ticker that passed the check of line 48 (lines 54 to 86);
  \<^verbatim>\<open>data.iloc[-1]\<close> is the last bar, and \<open>data\<close> is not empty there. The two
  fundamentals are Python floats and \<^verbatim>\<open>last_row['RSI']\<close> is a numpy scalar.
\<close>

definition summary_row :: "ticker \<Rightarrow> pyfloat \<Rightarrow> pyfloat \<Rightarrow> bar list \<Rightarrow> screen_row" where
  "summary_row ticker pe roe data =
     (let roe_percent = py_round2 (float_mul roe (Fin 100));
          rsi = last (calculate_rsi (map Close data) 14);
          sma20 = last (rolling_mean 20 (map Close data));
          spike = last (volume_spike (map Volume data));
          signal = signal_of rsi (Close (last data)) sma20
      in \<lparr>Ticker = ticker, PE_Ratio = py_round2 pe, ROE_pct = roe_percent,
          RSI = np_round2 rsi,
          Volume_Spike_Today = (if spike then ''Yes'' else ''No''),
          Signal = signal\<rparr>)"

text \<open>
  Lines 72 to 77 draw the closes and the SMA20 of a ticker of \<^verbatim>\<open>plot_tickers\<close> and save
  the figure under \<^verbatim>\<open>screenshots/\<close>. Whether that succeeds is decided by matplotlib and
  the file system: like the provider, the chart writer is a parameter of the model. It is
  given the ticker and the two columns drawn, and returns \<open>None\<close> when the file has been
  written, or the exception raised.
\<close>

type_synonym plotter = "ticker \<Rightarrow> pyfloat list \<Rightarrow> pyfloat list \<Rightarrow> exn option"

text \<open>
  What the loop changes: the rows collected, the chart files written and the lines
  printed by the exception handler.
\<close>

record screener_state =
  summary_data :: "screen_row list"
  charts :: "ticker list"
  printed :: "(ticker \<times> exn) list"

text \<open>
  One iteration of \<^verbatim>\<open>for ticker in selected_tickers\<close>, from the outcome of the call of
  \<^verbatim>\<open>fetch_stock_bundle\<close> on. The \<^verbatim>\<open>try\<close> covers the whole iteration: an exception
  of the fetch or of the chart is printed and the ticker is left without a row, the
  chart being drawn before the row is appended.
\<close>

definition screen_fetched ::
  "plotter \<Rightarrow> ticker list \<Rightarrow> screener_state \<Rightarrow> ticker \<Rightarrow> exn + info \<times> bar list \<Rightarrow> screener_state" where
  "screen_fetched plot_chart plot_tickers st ticker fetched =
     (case fetched of
        Inl e \<Rightarrow> st\<lparr>printed := printed st @ [(ticker, e)]\<rparr>
      | Inr (finfo, data) \<Rightarrow>
          (case trailingPE finfo of
             None \<Rightarrow> st
           | Some pe \<Rightarrow>
               (case returnOnEquity finfo of
                  None \<Rightarrow> st
                | Some roe \<Rightarrow>
                    if data = [] then st
                    else if ticker \<in> set plot_tickers then
                      (case plot_chart ticker (map Close data) (rolling_mean 20 (map Close data)) of
                         Some e \<Rightarrow> st\<lparr>printed := printed st @ [(ticker, e)]\<rparr>
                       | None \<Rightarrow>
                           st\<lparr>summary_data := summary_data st @ [summary_row ticker pe roe data],
                              charts := charts st @ [ticker]\<rparr>)
                    else st\<lparr>summary_data := summary_data st @ [summary_row ticker pe roe data]\<rparr>)))"

definition screen_ticker ::
  "provider \<Rightarrow> plotter \<Rightarrow> ticker list \<Rightarrow> screener_state \<Rightarrow> ticker \<Rightarrow> screener_state" where
  "screen_ticker fetch plot_chart plot_tickers st ticker =
     screen_fetched plot_chart plot_tickers st ticker (fetch ticker)"

definition screen_all ::
  "provider \<Rightarrow> plotter \<Rightarrow> ticker list \<Rightarrow> ticker list \<Rightarrow> screener_state" where
  "screen_all fetch plot_chart plot_tickers selected_tickers =
     foldl (screen_ticker fetch plot_chart plot_tickers)
       \<lparr>summary_data = [], charts = [], printed = []\<rparr> selected_tickers"

text \<open>
  The two tables returned. Every row has both filter columns, so the loop that adds a
  missing column does nothing; the comparison of a NaN cell with a bound is false. The
  pause of \<^verbatim>\<open>time.sleep\<close> and the two spreadsheet exports, which write the same two
  tables, change nothing in what is returned: they appear in \<open>run_screener_in\<close> below,
  which runs the same loop in a world with a clock, a cache and files.
\<close>

definition run_screener ::
  "provider \<Rightarrow> plotter \<Rightarrow> ticker list \<Rightarrow> ticker list \<Rightarrow> pyfloat \<Rightarrow> pyfloat
     \<Rightarrow> screen_row list \<times> screen_row list" where
  "run_screener fetch plot_chart selected_tickers plot_tickers max_pe_filter min_roe_filter =
     (let result_df = summary_data (screen_all fetch plot_chart plot_tickers selected_tickers)
      in if result_df = [] then (result_df, result_df)
         else (result_df,
               filter (\<lambda>r. py_le (PE_Ratio r) max_pe_filter \<and> py_ge (ROE_pct r) min_roe_filter)
                 result_df))"

text \<open>
  The row, if any, that one iteration appends for a ticker: none when the fetch raises,
  when a fundamentals field is missing, when the history is empty or when the chart
  asked for cannot be written. Lemma \<open>screen_ticker_summary\<close> ties it to
  \<open>screen_ticker\<close>.
\<close>

definition ticker_row :: "provider \<Rightarrow> plotter \<Rightarrow> ticker list \<Rightarrow> ticker \<Rightarrow> screen_row option" where
  "ticker_row fetch plot_chart plot_tickers ticker =
     (case fetch ticker of
        Inl e \<Rightarrow> None
      | Inr (finfo, data) \<Rightarrow>
          (case trailingPE finfo of
             None \<Rightarrow> None
           | Some pe \<Rightarrow>
               (case returnOnEquity finfo of
                  None \<Rightarrow> None
                | Some roe \<Rightarrow>
                    if data = [] then None
                    else if ticker \<in> set plot_tickers
                           \<and> plot_chart ticker (map Close data) (rolling_mean 20 (map Close data)) \<noteq> None
                    then None
                    else Some (summary_row ticker pe roe data))))"

section \<open>fetch_stock_bundle and what one run leaves to the next\<close>

text \<open>
  What a run finds and what it leaves behind: the wall clock, the store that
  \<^verbatim>\<open>st.cache_data\<close> keeps for \<^verbatim>\<open>fetch_stock_bundle\<close> (for each ticker the time
  of the call and the value returned), the two spreadsheets under \<^verbatim>\<open>exports/\<close>, the
  charts under \<^verbatim>\<open>screenshots/\<close> and the lines printed.
\<close>

type_synonym stock_bundle = "info \<times> bar list"

record world =
  clock :: real
  cache :: "ticker \<rightharpoonup> real \<times> stock_bundle"
  exports :: "(screen_row list \<times> screen_row list) option"
  screenshots :: "ticker list"
  stdout :: "(ticker \<times> exn) list"

text \<open>
  The body of \<^verbatim>\<open>fetch_stock_bundle\<close> asks the upstream service, a parameter of the
  model. \<^verbatim>\<open>st.cache_data(ttl=3600)\<close> runs the body when the store has no entry for
  the ticker, or one older than 3600 seconds, and keeps what the body returns; an
  exception of the body is raised to the caller and nothing is kept. The store holds a
  serialised copy and every call hands out a new object, so the columns that
  \<open>run_screener\<close> writes into \<^verbatim>\<open>data\<close> never reach the store.
\<close>

definition cache_miss :: "provider \<Rightarrow> world \<Rightarrow> ticker \<Rightarrow> (exn + stock_bundle) \<times> world" where
  "cache_miss yahoo w ticker =
     (case yahoo ticker of
        Inl e \<Rightarrow> (Inl e, w)
      | Inr b \<Rightarrow> (Inr b, w\<lparr>cache := (cache w)(ticker \<mapsto> (clock w, b))\<rparr>))"

definition fetch_stock_bundle :: "provider \<Rightarrow> world \<Rightarrow> ticker \<Rightarrow> (exn + stock_bundle) \<times> world" where
  "fetch_stock_bundle yahoo w ticker =
     (case cache w ticker of
        None \<Rightarrow> cache_miss yahoo w ticker
      | Some (stored, b) \<Rightarrow>
          if clock w < stored + 3600 then (Inr b, w) else cache_miss yahoo w ticker)"

text \<open>Whether an iteration gets past line 48, to the pause of line 52.\<close>

definition reaches_sleep :: "exn + stock_bundle \<Rightarrow> bool" where
  "reaches_sleep fetched =
     (case fetched of
        Inl e \<Rightarrow> False
      | Inr (finfo, data) \<Rightarrow>
          trailingPE finfo \<noteq> None \<and> returnOnEquity finfo \<noteq> None \<and> data \<noteq> [])"

text \<open>One iteration of the loop in a world: the call through the cache, the pause, the rest.\<close>

definition screen_ticker_in ::
  "provider \<Rightarrow> plotter \<Rightarrow> ticker list \<Rightarrow> screener_state \<times> world \<Rightarrow> ticker
     \<Rightarrow> screener_state \<times> world" where
  "screen_ticker_in yahoo plot_chart plot_tickers sw ticker =
     (let fw = fetch_stock_bundle yahoo (snd sw) ticker;
          w' = (if reaches_sleep (fst fw) then (snd fw)\<lparr>clock := clock (snd fw) + 1.1\<rparr>
                else snd fw)
      in (screen_fetched plot_chart plot_tickers (fst sw) ticker (fst fw), w'))"

text \<open>
  \<^verbatim>\<open>run_screener\<close> in a world: the loop, then the two exports unless the table is
  empty. The charts and the printed lines of the loop are added to those of the world.
\<close>

definition run_screener_in ::
  "provider \<Rightarrow> plotter \<Rightarrow> world \<Rightarrow> ticker list \<Rightarrow> ticker list \<Rightarrow> pyfloat \<Rightarrow> pyfloat
     \<Rightarrow> (screen_row list \<times> screen_row list) \<times> world" where
  "run_screener_in yahoo plot_chart w selected_tickers plot_tickers max_pe_filter min_roe_filter =
     (let sw = foldl (screen_ticker_in yahoo plot_chart plot_tickers)
                 (\<lparr>summary_data = [], charts = [], printed = []\<rparr>, w) selected_tickers;
          w' = (snd sw)\<lparr>screenshots := screenshots (snd sw) @ charts (fst sw),
                          stdout := stdout (snd sw) @ printed (fst sw)\<rparr>;
          result_df = summary_data (fst sw)
      in if result_df = [] then ((result_df, result_df), w')
         else (let filtered_df =
                     filter (\<lambda>r. py_le (PE_Ratio r) max_pe_filter \<and> py_ge (ROE_pct r) min_roe_filter)
                       result_df
               in ((result_df, filtered_df), w'\<lparr>exports := Some (result_df, filtered_df)\<rparr>)))"

text \<open>
  Unchanged upstream data, for a world: every bundle in the store is the one the upstream
  service returns for that ticker.
\<close>

definition cache_of_upstream :: "provider \<Rightarrow> world \<Rightarrow> bool" where
  "cache_of_upstream yahoo w =
     (\<forall>ticker stored b. cache w ticker = Some (stored, b) \<longrightarrow> yahoo ticker = Inr b)"

section \<open>Example inputs\<close>

text \<open>
  A three-bar history, and a provider that knows three tickers and fails on the rest.
  The return on equity of the three is the binary64 number nearest to 0.2.
\<close>

definition short_history :: "bar list" where
  "short_history =
     [\<lparr>Close = Fin 100, Volume = Fin 1000\<rparr>,
      \<lparr>Close = Fin 101, Volume = Fin 1000\<rparr>,
      \<lparr>Close = Fin 102, Volume = Fin 9000\<rparr>]"

definition roe_example :: pyfloat where
  "roe_example = Fin (3602879701896397 / 18014398509481984)"

definition example_provider :: provider where
  "example_provider ticker =
     (if ticker = ''A'' then
        Inr (\<lparr>trailingPE = Some (Fin 10), returnOnEquity = Some roe_example\<rparr>, short_history)
      else if ticker = ''B'' then
        Inr (\<lparr>trailingPE = Some (Fin 50), returnOnEquity = Some roe_example\<rparr>, short_history)
      else if ticker = ''C'' then
        Inr (\<lparr>trailingPE = None, returnOnEquity = Some roe_example\<rparr>, short_history)
      else Inl (Exception ''no data''))"

definition row_A :: screen_row where
  "row_A = \<lparr>Ticker = ''A'', PE_Ratio = Fin 10, ROE_pct = Fin 20, RSI = NaN,
             Volume_Spike_Today = ''No'', Signal = ''Hold''\<rparr>"

definition row_B :: screen_row where
  "row_B = \<lparr>Ticker = ''B'', PE_Ratio = Fin 50, ROE_pct = Fin 20, RSI = NaN,
             Volume_Spike_Today = ''No'', Signal = ''Hold''\<rparr>"

text \<open>A chart writer that never fails, and one that cannot write the chart of B.\<close>

definition chart_written :: plotter where
  "chart_written ticker closes sma20 = None"

definition chart_of_B_fails :: plotter where
  "chart_of_B_fails ticker closes sma20 =
     (if ticker = ''B'' then Some (Exception ''disk full'') else None)"

text \<open>
  A world at time 1000 whose store has kept the bundle of B from a call at time 0, and
  the world that a run leaves, found again 3000 seconds later with the exports and the
  charts removed.
\<close>

definition warm_world :: world where
  "warm_world =
     \<lparr>clock = 1000,
      cache = [''B'' \<mapsto> (0, \<lparr>trailingPE = Some (Fin 50), returnOnEquity = Some roe_example\<rparr>,
                             short_history)],
      exports = None, screenshots = [], stdout = []\<rparr>"

definition found_later :: "world \<Rightarrow> world" where
  "found_later w = w\<lparr>clock := clock w + 3000, exports := None, screenshots := []\<rparr>"

text \<open>
  A world whose store has kept, from a call at time 0, a bundle of A with the
  price-earnings ratio 50 that the provider no longer returns.
\<close>

definition stale_world :: "real \<Rightarrow> world" where
  "stale_world now =
     \<lparr>clock = now,
      cache = [''A'' \<mapsto> (0, \<lparr>trailingPE = Some (Fin 50), returnOnEquity = Some roe_example\<rparr>,
                             short_history)],
      exports = None, screenshots = [], stdout = []\<rparr>"

text \<open>Twenty volumes: nineteen quiet bars, then a bar of nine times the volume.\<close>

definition spike_volumes :: "real list" where
  "spike_volumes = replicate 19 1000 @ [9000]"

text \<open>
  Fifteen closes each: strictly rising; rising with one fall at bar 13; constant.
\<close>

definition rising_closes :: "real list" where
  "rising_closes = [1, 2, 3, 4, 5, 6, 7, 8, 9, 10, 11, 12, 13, 14, 15]"

definition mixed_closes :: "real list" where
  "mixed_closes = [1, 2, 3, 4, 5, 6, 7, 8, 9, 10, 11, 12, 13, 12, 13]"

definition flat_closes :: "real list" where
  "flat_closes = replicate 15 100"

section \<open>The loop collects one row per ticker that passes\<close>

lemma screen_ticker_summary:
  "summary_data (screen_ticker fetch plot_chart ps st t) =
     summary_data st @ (case ticker_row fetch plot_chart ps t of None \<Rightarrow> [] | Some r \<Rightarrow> [r])"
  by (auto simp: screen_ticker_def screen_fetched_def ticker_row_def
      split: sum.splits prod.splits option.splits)

lemma foldl_screen_ticker_summary:
  "summary_data (foldl (screen_ticker fetch plot_chart ps) st ts) =
     summary_data st @ List.map_filter (ticker_row fetch plot_chart ps) ts"
proof (induction ts arbitrary: st)
  case Nil
  show ?case by (simp add: List.map_filter_simps)
next
  case (Cons t ts)
  show ?case
    by (simp add: Cons.IH screen_ticker_summary List.map_filter_simps split: option.splits)
qed

lemma screen_all_summary:
  "summary_data (screen_all fetch plot_chart ps ts) = List.map_filter (ticker_row fetch plot_chart ps) ts"
  by (simp add: screen_all_def foldl_screen_ticker_summary)

lemma fst_run_screener:
  "fst (run_screener fetch plot_chart ts ps mp mr) = List.map_filter (ticker_row fetch plot_chart ps) ts"
  by (simp add: run_screener_def Let_def screen_all_summary)

lemma snd_run_screener:
  "snd (run_screener fetch plot_chart ts ps mp mr) =
     filter (\<lambda>r. py_le (PE_Ratio r) mp \<and> py_ge (ROE_pct r) mr)
       (List.map_filter (ticker_row fetch plot_chart ps) ts)"
  by (simp add: run_screener_def Let_def screen_all_summary)

lemma Ticker_summary_row: "Ticker (summary_row t pe roe d) = t"
  by (simp add: summary_row_def Let_def)

lemma ticker_row_Ticker: "ticker_row fetch plot_chart ps t = Some r \<Longrightarrow> Ticker r = t"
  by (auto simp: ticker_row_def Ticker_summary_row
      split: sum.splits prod.splits option.splits if_splits)

lemma set_map_filter: "set (List.map_filter f xs) = {y. \<exists>x\<in>set xs. f x = Some y}"
  by (induction xs) (auto simp: List.map_filter_simps split: option.splits)

lemma map_filter_app:
  "List.map_filter f (xs @ ys) = List.map_filter f xs @ List.map_filter f ys"
  by (simp add: List.map_filter_def)

text \<open>
  The roundings of a row on two examples. The binary64 number nearest to 0.2 gives 20;
  the one nearest to 0.17995 is below 0.17995, its product with 100 is rounded up to the
  binary64 number above 17.995, and \<^verbatim>\<open>round\<close> then gives 18.
\<close>

lemma roe_percent_examples:
  "float_mul roe_example (Fin 100) = Fin 20"
  "float_mul (Fin (3241691011781283 / 18014398509481984)) (Fin 100) =
     Fin (5065142205908255 / 281474976710656)"
  "py_round2 (Fin (5065142205908255 / 281474976710656)) = Fin 18"
  by code_simp+

lemma summary_row_A: "summary_row ''A'' (Fin 10) roe_example short_history = row_A"
  by code_simp

lemma summary_row_B: "summary_row ''B'' (Fin 50) roe_example short_history = row_B"
  by code_simp

lemma short_history_not_empty: "short_history \<noteq> []"
  by (simp add: short_history_def)

lemma ticker_row_examples:
  "ticker_row example_provider plot_chart ps ''A'' =
     (if ''A'' \<in> set ps \<and> plot_chart ''A'' (map Close short_history)
                               (rolling_mean 20 (map Close short_history)) \<noteq> None
      then None else Some row_A)"
  "ticker_row example_provider plot_chart ps ''B'' =
     (if ''B'' \<in> set ps \<and> plot_chart ''B'' (map Close short_history)
                               (rolling_mean 20 (map Close short_history)) \<noteq> None
      then None else Some row_B)"
  "ticker_row example_provider plot_chart ps ''C'' = None"
  "ticker_row example_provider plot_chart ps ''D'' = None"
  by (simp_all add: ticker_row_def example_provider_def summary_row_A summary_row_B
      short_history_not_empty)

lemma example_rows_pass:
  "py_le (PE_Ratio row_A) (Fin 30)" "py_ge (ROE_pct row_A) (Fin 15)"
  "\<not> py_le (PE_Ratio row_B) (Fin 30)" "\<not> py_le (PE_Ratio row_A) (Fin (- 5))"
  "\<not> py_le (PE_Ratio row_B) (Fin (- 5))"
  by (simp_all add: row_A_def row_B_def py_ge_def)

lemma example_tables_AB:
  "run_screener example_provider chart_written [''A'', ''B''] [] (Fin 30) (Fin 15) = ([row_A, row_B], [row_A])"
  by (simp add: prod_eq_iff fst_run_screener snd_run_screener List.map_filter_simps
      ticker_row_examples example_rows_pass)

section \<open>The signal rule\<close>

text \<open>
  C2. The signal of the latest bar is Buy exactly when \<open>rsi < 30\<close> and
  \<open>close > sma20\<close>, Sell exactly when \<open>rsi > 70\<close> and \<open>close < sma20\<close>, and Hold in
  every other case; it is Hold whenever the RSI or the SMA20 is NaN. The rule is a total
  function of the three values: it has no failing branch. The last two lines read the
  comparisons on finite values.
\<close>

theorem signal_rule:
  "(signal_of rsi close sma20 = ''Buy'' \<longleftrightarrow> py_lt rsi (Fin 30) \<and> py_gt close sma20)
   \<and> (signal_of rsi close sma20 = ''Sell'' \<longleftrightarrow> py_gt rsi (Fin 70) \<and> py_lt close sma20)
   \<and> (signal_of rsi close sma20 = ''Hold'' \<longleftrightarrow>
        \<not> (py_lt rsi (Fin 30) \<and> py_gt close sma20) \<and> \<not> (py_gt rsi (Fin 70) \<and> py_lt close sma20))
   \<and> signal_of NaN close sma20 = ''Hold''
   \<and> signal_of rsi close NaN = ''Hold''
   \<and> (signal_of (Fin r) (Fin c) (Fin s) = ''Buy'' \<longleftrightarrow> r < 30 \<and> s < c)
   \<and> (signal_of (Fin r) (Fin c) (Fin s) = ''Sell'' \<longleftrightarrow> 70 < r \<and> c < s)"
proof -
  have excl: "\<not> (py_lt rsi (Fin 30) \<and> py_gt rsi (Fin 70))"
    by (cases rsi) (auto simp: py_gt_def)
  have nan2: "\<not> py_gt close NaN" "\<not> py_lt close NaN"
    by (cases close; simp add: py_gt_def)+
  show ?thesis
    using excl nan2 by (auto simp: signal_of_def py_gt_def)
qed

section \<open>The filtered table\<close>

text \<open>
  C4. The filtered table is exactly the rows of the full table with
  \<open>PE Ratio \<le> max_pe_filter\<close> and \<open>ROE (%) \<ge> min_roe_filter\<close>, in the same order; it is
  a subset of the full table, each of its rows passes both tests, and when the full table
  is empty the call returns two empty tables.
\<close>

theorem filtered_table:
  "snd (run_screener fetch plot_chart ts ps max_pe min_roe) =
     filter (\<lambda>r. py_le (PE_Ratio r) max_pe \<and> py_ge (ROE_pct r) min_roe)
       (fst (run_screener fetch plot_chart ts ps max_pe min_roe))
   \<and> set (snd (run_screener fetch plot_chart ts ps max_pe min_roe))
       \<subseteq> set (fst (run_screener fetch plot_chart ts ps max_pe min_roe))
   \<and> (\<forall>r \<in> set (snd (run_screener fetch plot_chart ts ps max_pe min_roe)).
         py_le (PE_Ratio r) max_pe \<and> py_ge (ROE_pct r) min_roe)
   \<and> (fst (run_screener fetch plot_chart ts ps max_pe min_roe) = [] \<longrightarrow>
         run_screener fetch plot_chart ts ps max_pe min_roe = ([], []))"
  by (auto simp: run_screener_def Let_def)

theorem filtered_table_witness:
  "row_A \<in> set (snd (run_screener example_provider chart_written [''A'', ''B''] [] (Fin 30) (Fin 15)))
   \<and> py_le (PE_Ratio row_A) (Fin 30) \<and> py_ge (ROE_pct row_A) (Fin 15)
   \<and> fst (run_screener example_provider chart_written [''C''] [] (Fin 30) (Fin 15)) = []
   \<and> run_screener example_provider chart_written [''C''] [] (Fin 30) (Fin 15) = ([], [])"
proof -
  have in_snd: "row_A \<in> set (snd (run_screener example_provider chart_written [''A'', ''B''] [] (Fin 30) (Fin 15)))"
    by (simp add: example_tables_AB)
  have empty: "fst (run_screener example_provider chart_written [''C''] [] (Fin 30) (Fin 15)) = []"
    by (simp add: fst_run_screener List.map_filter_simps ticker_row_examples)
  from filtered_table [of example_provider chart_written "[''A'', ''B'']" "[]" "Fin 30" "Fin 15"] in_snd
  have "py_le (PE_Ratio row_A) (Fin 30) \<and> py_ge (ROE_pct row_A) (Fin 15)"
    by blast
  moreover from filtered_table [of example_provider chart_written "[''C'']" "[]" "Fin 30" "Fin 15"] empty
  have "run_screener example_provider chart_written [''C''] [] (Fin 30) (Fin 15) = ([], [])"
    by blast
  ultimately show ?thesis
    using in_snd empty by blast
qed

section \<open>Rolling windows\<close>

lemma length_diff: "length (diff xs) = length xs"
  by (simp add: diff_def)

lemma length_series_where: "length (series_where c other xs) = length xs"
  by (simp add: series_where_def)

lemma length_rolling_mean: "length (rolling_mean w xs) = length xs"
  by (simp add: rolling_mean_def)

lemma length_gain: "length (gain xs w) = length xs"
  by (simp add: gain_def length_rolling_mean length_series_where length_diff)

lemma length_loss: "length (loss xs w) = length xs"
  by (simp add: loss_def length_rolling_mean length_series_where length_diff)

lemma length_calculate_rsi: "length (calculate_rsi xs w) = length xs"
  by (simp add: calculate_rsi_def Let_def length_gain length_loss)

lemma length_volume_spike: "length (volume_spike vs) = length vs"
  by (simp add: volume_spike_def length_rolling_mean)

lemma length_observations: "length (observations xs) \<le> length xs"
  by (induction xs rule: observations.induct) auto

lemma length_window_at: "length (window_at w xs t) = min (length xs) (t + 1) - (t + 1 - w)"
  by (simp add: window_at_def)

lemma rolling_mean_nth:
  "t < length xs \<Longrightarrow>
   rolling_mean w xs ! t =
     (if w \<le> length (observations (window_at w xs t))
      then Fin (sum_list (observations (window_at w xs t))
                 / real (length (observations (window_at w xs t))))
      else NaN)"
  by (simp add: rolling_mean_def Let_def)

lemma rolling_mean_warmup:
  assumes "t < length xs" and "t + 1 < w"
  shows "rolling_mean w xs ! t = NaN"
proof -
  have "length (observations (window_at w xs t)) \<le> length (window_at w xs t)"
    by (rule length_observations)
  also have "\<dots> < w"
    using assms by (simp add: length_window_at)
  finally show ?thesis
    using assms(1) by (simp add: rolling_mean_nth)
qed

lemma last_rolling_mean_short:
  assumes "xs \<noteq> []" and "length xs < w"
  shows "last (rolling_mean w xs) = NaN"
proof -
  have ne: "rolling_mean w xs \<noteq> []"
    using assms(1) length_rolling_mean [of w xs] by auto
  have "last (rolling_mean w xs) = rolling_mean w xs ! (length xs - 1)"
    using ne by (simp add: last_conv_nth length_rolling_mean)
  also have "\<dots> = NaN"
    using assms by (intro rolling_mean_warmup) auto
  finally show ?thesis .
qed

lemma window_at_upt:
  assumes "t < length xs"
  shows "window_at w xs t = map ((!) xs) [t + 1 - w..<t + 1]"
proof -
  have "take (t + 1) xs = take (t + 1) (map ((!) xs) [0..<length xs])"
    by (simp only: map_nth)
  also have "\<dots> = map ((!) xs) (take (t + 1) [0..<length xs])"
    by (simp only: take_map)
  also have "take (t + 1) [0..<length xs] = [0..<t + 1]"
    using assms by (simp add: take_upt del: upt_Suc)
  finally have "take (t + 1) xs = map ((!) xs) [0..<t + 1]" .
  then show ?thesis
    by (simp add: window_at_def drop_map del: upt_Suc)
qed

lemma observations_map_Fin: "observations (map Fin rs) = rs"
  by (induction rs) auto

lemma rolling_mean_Fin:
  assumes "t < length rs" and "w \<le> t + 1"
  shows "rolling_mean w (map Fin rs) ! t = Fin ((\<Sum>i\<leftarrow>[t + 1 - w..<t + 1]. rs ! i) / real w)"
proof -
  have win: "window_at w (map Fin rs) t = map Fin (map ((!) rs) [t + 1 - w..<t + 1])"
    using assms(1) by (simp add: window_at_upt del: upt_Suc)
  have obs: "observations (window_at w (map Fin rs) t) = map ((!) rs) [t + 1 - w..<t + 1]"
    unfolding win by (rule observations_map_Fin)
  have len: "Suc t - (Suc t - w) = w"
    using assms(2) by arith
  show ?thesis
    using assms(1) by (simp add: rolling_mean_nth obs len del: upt_Suc)
qed

lemma volume_spike_nth:
  "t < length vs \<Longrightarrow>
   volume_spike vs ! t = py_gt (vs ! t) (py_mul (Fin 1.5) (rolling_mean 20 vs ! t))"
  by (simp add: volume_spike_def length_rolling_mean)

lemma py_gt_NaN: "py_gt x NaN = False"
  by (cases x) (simp_all add: py_gt_def)

lemma py_lt_NaN: "py_lt x NaN = False"
  by (cases x) simp_all

lemma last_volume_spike_short:
  assumes "vs \<noteq> []" and "length vs < 20"
  shows "last (volume_spike vs) = False"
proof -
  have ne: "volume_spike vs \<noteq> []"
    using assms(1) length_volume_spike [of vs] by auto
  have t: "length vs - 1 < length vs"
    using assms(1) by simp
  have "last (volume_spike vs) = volume_spike vs ! (length vs - 1)"
    using ne by (simp add: last_conv_nth length_volume_spike)
  also have "\<dots> = py_gt (vs ! (length vs - 1))
                      (py_mul (Fin 1.5) (rolling_mean 20 vs ! (length vs - 1)))"
    using t by (rule volume_spike_nth)
  also have "rolling_mean 20 vs ! (length vs - 1) = NaN"
    using t assms(2) by (intro rolling_mean_warmup) auto
  finally show ?thesis
    by (simp add: py_gt_NaN)
qed

section \<open>Volume spikes\<close>

text \<open>
  C10. At a bar where the trailing 20-bar volume average is NaN the volume-spike flag is
  False, a boolean and not a missing value; this is the case at each of the first 19 bars.
  The row built from a history of fewer than 20 bars therefore reports
  \<open>Volume Spike Today\<close> as No.
\<close>

theorem volume_spike_undefined_average:
  "(t < length volume \<and> rolling_mean 20 volume ! t = NaN \<longrightarrow> volume_spike volume ! t = False)
   \<and> (t < length volume \<and> t < 19 \<longrightarrow>
        rolling_mean 20 volume ! t = NaN \<and> volume_spike volume ! t = False)
   \<and> (data \<noteq> [] \<and> length data < 20 \<longrightarrow>
        Volume_Spike_Today (summary_row ticker pe roe data) = ''No'')"
proof (intro conjI impI)
  assume a: "t < length volume \<and> rolling_mean 20 volume ! t = NaN"
  then show "volume_spike volume ! t = False"
    by (simp add: volume_spike_nth py_gt_NaN)
next
  assume a: "t < length volume \<and> t < 19"
  then show nan: "rolling_mean 20 volume ! t = NaN"
    by (intro rolling_mean_warmup) auto
  from a nan show "volume_spike volume ! t = False"
    by (simp add: volume_spike_nth py_gt_NaN)
next
  assume a: "data \<noteq> [] \<and> length data < 20"
  then have "last (volume_spike (map Volume data)) = False"
    by (intro last_volume_spike_short) auto
  then show "Volume_Spike_Today (summary_row ticker pe roe data) = ''No''"
    by (simp add: summary_row_def Let_def)
qed

theorem volume_spike_undefined_average_witness:
  "rolling_mean 20 (map Volume short_history) ! 2 = NaN
   \<and> volume_spike (map Volume short_history) ! 2 = False
   \<and> Volume_Spike_Today (summary_row ''A'' (Fin 10) roe_example short_history) = ''No''"
proof -
  have t: "2 < length (map Volume short_history) \<and> (2::nat) < 19"
    by (simp add: short_history_def)
  have d: "short_history \<noteq> [] \<and> length short_history < 20"
    by (simp add: short_history_def)
  from volume_spike_undefined_average
         [of 2 "map Volume short_history" short_history "''A''" "Fin 10" roe_example] t d
  show ?thesis
    by blast
qed

text \<open>
  C7. On a series of finite volumes, at a bar \<open>t\<close> with at least 19 bars before it, the
  flag is true exactly when the bar's volume exceeds 1.5 times the mean of the 20 volumes
  \<open>volume[t-19..t]\<close>, the bar's own volume included.
\<close>

theorem volume_spike_rule:
  assumes "19 \<le> t" and "t < length vs"
  shows "volume_spike (map Fin vs) ! t \<longleftrightarrow>
           vs ! t > 1.5 * ((\<Sum>i\<leftarrow>[t - 19..<t + 1]. vs ! i) / 20)"
proof -
  have "rolling_mean 20 (map Fin vs) ! t = Fin ((\<Sum>i\<leftarrow>[t + 1 - 20..<t + 1]. vs ! i) / real 20)"
    using assms by (intro rolling_mean_Fin) auto
  moreover have "t + 1 - 20 = t - 19"
    by simp
  ultimately have "rolling_mean 20 (map Fin vs) ! t = Fin ((\<Sum>i\<leftarrow>[t - 19..<t + 1]. vs ! i) / 20)"
    by simp
  then show ?thesis
    using assms(2) by (simp add: volume_spike_nth py_gt_def del: upt_Suc)
qed

theorem volume_spike_rule_witness:
  "(19::nat) \<le> 19 \<and> 19 < length spike_volumes \<and> volume_spike (map Fin spike_volumes) ! 19"
proof -
  have h: "(19::nat) \<le> 19" "19 < length spike_volumes"
    by (simp_all add: spike_volumes_def)
  have rhs: "spike_volumes ! 19 > 1.5 * ((\<Sum>i\<leftarrow>[19 - 19..<19 + 1]. spike_volumes ! i) / 20)"
    by code_simp
  from volume_spike_rule [OF h] rhs have "volume_spike (map Fin spike_volumes) ! 19"
    by blast
  with h show ?thesis
    by blast
qed

section \<open>Warm-up of the RSI and rows of short histories\<close>

lemma py_div_NaN: "py_div x NaN = NaN"
  by (cases x) simp_all

lemma py_add_NaN: "py_add x NaN = NaN"
  by (cases x) simp_all

lemma calculate_rsi_nth:
  "t < length xs \<Longrightarrow>
   calculate_rsi xs w ! t =
     py_sub (Fin 100) (py_div (Fin 100) (py_add (Fin 1) (py_div (gain xs w ! t) (loss xs w ! t))))"
  by (simp add: calculate_rsi_def Let_def length_gain length_loss)

lemma gain_warmup: "t < length xs \<Longrightarrow> t + 1 < w \<Longrightarrow> gain xs w ! t = NaN"
  unfolding gain_def
  by (rule rolling_mean_warmup) (simp_all add: length_series_where length_diff)

lemma calculate_rsi_warmup:
  "t < length xs \<Longrightarrow> t + 1 < w \<Longrightarrow> calculate_rsi xs w ! t = NaN"
  by (simp add: calculate_rsi_nth gain_warmup py_sub_def)

lemma last_calculate_rsi_short:
  assumes "xs \<noteq> []" and "length xs < w"
  shows "last (calculate_rsi xs w) = NaN"
proof -
  have ne: "calculate_rsi xs w \<noteq> []"
    using assms(1) length_calculate_rsi [of xs w] by auto
  have "last (calculate_rsi xs w) = calculate_rsi xs w ! (length xs - 1)"
    using ne by (simp add: last_conv_nth length_calculate_rsi)
  also have "\<dots> = NaN"
    using assms by (intro calculate_rsi_warmup) auto
  finally show ?thesis .
qed

lemma signal_of_NaN_sma: "signal_of rsi close NaN = ''Hold''"
  by (simp add: signal_of_def py_gt_NaN py_lt_NaN)

lemma summary_row_short:
  assumes "data \<noteq> []" and "length data < 20"
  shows "Signal (summary_row x pe roe data) = ''Hold''"
    and "Volume_Spike_Today (summary_row x pe roe data) = ''No''"
proof -
  have "last (rolling_mean 20 (map Close data)) = NaN"
    using assms by (intro last_rolling_mean_short) auto
  then show "Signal (summary_row x pe roe data) = ''Hold''"
    by (simp add: summary_row_def Let_def signal_of_NaN_sma)
  have "last (volume_spike (map Volume data)) = False"
    using assms by (intro last_volume_spike_short) auto
  then show "Volume_Spike_Today (summary_row x pe roe data) = ''No''"
    by (simp add: summary_row_def Let_def)
qed

lemma summary_row_RSI_short:
  assumes "data \<noteq> []" and "length data < 14"
  shows "RSI (summary_row x pe roe data) = NaN"
proof -
  have "last (calculate_rsi (map Close data) 14) = NaN"
    using assms by (intro last_calculate_rsi_short) auto
  then show ?thesis
    by (simp add: summary_row_def Let_def)
qed

text \<open>
  C1, as the code has it. \<open>run_screener\<close> has no test that the latest RSI and SMA20 are
  defined: a ticker with both fundamentals and a non-empty history of fewer than 20 bars
  is not excluded. Unless a chart is asked for it and cannot be written, it contributes
  its row to the full table, with signal Hold and volume spike No; the RSI of the row is
  NaN when the history has fewer than 14 bars. The row is in the filtered table exactly
  when it passes the two filters.
\<close>

theorem short_history_row_emitted:
  assumes "fetch x = Inr (finfo, data)"
    and "trailingPE finfo = Some pe" and "returnOnEquity finfo = Some roe"
    and "data \<noteq> []" and "length data < 20" and "x \<in> set ts"
    and "x \<in> set ps \<longrightarrow>
           plot_chart x (map Close data) (rolling_mean 20 (map Close data)) = None"
  shows "summary_row x pe roe data \<in> set (fst (run_screener fetch plot_chart ts ps max_pe min_roe))
         \<and> (summary_row x pe roe data \<in> set (snd (run_screener fetch plot_chart ts ps max_pe min_roe))
              \<longleftrightarrow> py_le (PE_Ratio (summary_row x pe roe data)) max_pe
                   \<and> py_ge (ROE_pct (summary_row x pe roe data)) min_roe)
         \<and> Ticker (summary_row x pe roe data) = x
         \<and> Signal (summary_row x pe roe data) = ''Hold''
         \<and> Volume_Spike_Today (summary_row x pe roe data) = ''No''
         \<and> (length data < 14 \<longrightarrow> RSI (summary_row x pe roe data) = NaN)"
proof -
  have "ticker_row fetch plot_chart ps x = Some (summary_row x pe roe data)"
    using assms(1-4,7) by (simp add: ticker_row_def)
  then have in_full: "summary_row x pe roe data \<in> set (List.map_filter (ticker_row fetch plot_chart ps) ts)"
    using assms(6) by (auto simp: set_map_filter)
  then have "summary_row x pe roe data \<in> set (fst (run_screener fetch plot_chart ts ps max_pe min_roe))"
    by (simp add: fst_run_screener)
  moreover have "summary_row x pe roe data \<in> set (snd (run_screener fetch plot_chart ts ps max_pe min_roe))
      \<longleftrightarrow> py_le (PE_Ratio (summary_row x pe roe data)) max_pe
           \<and> py_ge (ROE_pct (summary_row x pe roe data)) min_roe"
    using in_full by (simp add: snd_run_screener)
  ultimately show ?thesis
    using assms(4,5) by (simp add: Ticker_summary_row summary_row_short summary_row_RSI_short)
qed

theorem short_history_row_emitted_witness:
  "row_A \<in> set (fst (run_screener example_provider chart_written [''A'', ''B''] [''A''] (Fin 30) (Fin 15)))
   \<and> row_A \<in> set (snd (run_screener example_provider chart_written [''A'', ''B''] [''A''] (Fin 30) (Fin 15)))
   \<and> row_B \<in> set (fst (run_screener example_provider chart_written [''A'', ''B''] [''A''] (Fin 30) (Fin 15)))
   \<and> row_B \<notin> set (snd (run_screener example_provider chart_written [''A'', ''B''] [''A''] (Fin 30) (Fin 15)))
   \<and> Signal row_A = ''Hold'' \<and> Volume_Spike_Today row_A = ''No'' \<and> RSI row_A = NaN"
proof -
  have fa: "example_provider ''A'' =
     Inr (\<lparr>trailingPE = Some (Fin 10), returnOnEquity = Some roe_example\<rparr>, short_history)"
    by (simp add: example_provider_def)
  have fb: "example_provider ''B'' =
     Inr (\<lparr>trailingPE = Some (Fin 50), returnOnEquity = Some roe_example\<rparr>, short_history)"
    by (simp add: example_provider_def)
  have l: "short_history \<noteq> []" "length short_history < 20" "length short_history < 14"
    by (simp_all add: short_history_def)
  have ca: "''A'' \<in> set [''A''] \<longrightarrow>
      chart_written ''A'' (map Close short_history) (rolling_mean 20 (map Close short_history)) = None"
    by (simp add: chart_written_def)
  have cb: "''B'' \<in> set [''A''] \<longrightarrow>
      chart_written ''B'' (map Close short_history) (rolling_mean 20 (map Close short_history)) = None"
    by (simp add: chart_written_def)
  from short_history_row_emitted [of example_provider "''A''"
      "\<lparr>trailingPE = Some (Fin 10), returnOnEquity = Some roe_example\<rparr>" short_history
      "Fin 10" roe_example "[''A'', ''B'']" "[''A'']" chart_written "Fin 30" "Fin 15"] fa l ca
  have a: "row_A \<in> set (fst (run_screener example_provider chart_written [''A'', ''B''] [''A''] (Fin 30) (Fin 15)))
      \<and> row_A \<in> set (snd (run_screener example_provider chart_written [''A'', ''B''] [''A''] (Fin 30) (Fin 15)))
      \<and> Signal row_A = ''Hold'' \<and> Volume_Spike_Today row_A = ''No'' \<and> RSI row_A = NaN"
    by (simp add: summary_row_A example_rows_pass)
  from short_history_row_emitted [of example_provider "''B''"
      "\<lparr>trailingPE = Some (Fin 50), returnOnEquity = Some roe_example\<rparr>" short_history
      "Fin 50" roe_example "[''A'', ''B'']" "[''A'']" chart_written "Fin 30" "Fin 15"] fb l cb
  have b: "row_B \<in> set (fst (run_screener example_provider chart_written [''A'', ''B''] [''A''] (Fin 30) (Fin 15)))
      \<and> row_B \<notin> set (snd (run_screener example_provider chart_written [''A'', ''B''] [''A''] (Fin 30) (Fin 15)))"
    by (simp add: summary_row_B example_rows_pass)
  from a b show ?thesis
    by blast
qed

text \<open>
  As the specification states it, the property fails: ticker A of the example provider
  has a history of three bars and both tables contain its row.
\<close>

theorem short_history_counterexample:
  "example_provider ''A'' =
     Inr (\<lparr>trailingPE = Some (Fin 10), returnOnEquity = Some roe_example\<rparr>, short_history)
   \<and> length short_history < 20
   \<and> fst (run_screener example_provider chart_written [''A''] [] (Fin 30) (Fin 15)) = [row_A]
   \<and> snd (run_screener example_provider chart_written [''A''] [] (Fin 30) (Fin 15)) = [row_A]"
  by (simp add: fst_run_screener snd_run_screener List.map_filter_simps ticker_row_examples
      example_rows_pass example_provider_def short_history_def)

text \<open>
  The chart comes before the row: when the chart of B cannot be written, B has no row,
  and the loop goes on to the next ticker.
\<close>

lemma chart_failure_drops_row:
  "run_screener example_provider chart_of_B_fails [''B'', ''A''] [''B''] (Fin 30) (Fin 15) =
     ([row_A], [row_A])
   \<and> printed (screen_all example_provider chart_of_B_fails [''B''] [''B'', ''A'']) =
       [(''B'', Exception ''disk full'')]"
  by (simp add: prod_eq_iff fst_run_screener snd_run_screener List.map_filter_simps
      ticker_row_examples example_rows_pass chart_of_B_fails_def
      screen_all_def screen_ticker_def screen_fetched_def example_provider_def
      short_history_not_empty)

section \<open>Tickers that fail\<close>

text \<open>
  C5. A ticker whose fetch raises, or whose \<open>trailingPE\<close> or \<open>returnOnEquity\<close> is
  absent, or whose history is empty, contributes no row, and the loop goes on: the full
  table is that of the tickers before it followed by that of the tickers after it. No row
  of the full table carries the name of such a ticker, whatever its price history.
\<close>

theorem failed_ticker_skipped:
  assumes "(\<exists>e. fetch x = Inl e)
           \<or> (\<exists>finfo data. fetch x = Inr (finfo, data)
                \<and> (trailingPE finfo = None \<or> returnOnEquity finfo = None \<or> data = []))"
  shows "fst (run_screener fetch plot_chart (before @ x # after) ps max_pe min_roe) =
           fst (run_screener fetch plot_chart before ps max_pe min_roe)
           @ fst (run_screener fetch plot_chart after ps max_pe min_roe)
         \<and> (\<forall>r \<in> set (fst (run_screener fetch plot_chart ts ps max_pe min_roe)). Ticker r \<noteq> x)"
proof -
  have none: "ticker_row fetch plot_chart ps x = None"
    using assms by (auto simp: ticker_row_def split: option.splits)
  have "List.map_filter (ticker_row fetch plot_chart ps) (before @ x # after) =
          List.map_filter (ticker_row fetch plot_chart ps) before @ List.map_filter (ticker_row fetch plot_chart ps) after"
    by (simp add: map_filter_app List.map_filter_simps none)
  moreover have "\<forall>r \<in> set (List.map_filter (ticker_row fetch plot_chart ps) ts). Ticker r \<noteq> x"
  proof
    fix r
    assume "r \<in> set (List.map_filter (ticker_row fetch plot_chart ps) ts)"
    then obtain t where t: "ticker_row fetch plot_chart ps t = Some r"
      by (auto simp: set_map_filter)
    then have "Ticker r = t"
      by (rule ticker_row_Ticker)
    with t none show "Ticker r \<noteq> x"
      by auto
  qed
  ultimately show ?thesis
    by (simp add: fst_run_screener)
qed

theorem failed_ticker_skipped_witness:
  "fst (run_screener example_provider chart_written ([''A''] @ ''D'' # [''B'']) [] (Fin 30) (Fin 15)) = [row_A, row_B]
   \<and> fst (run_screener example_provider chart_written ([''A''] @ ''C'' # [''B'']) [] (Fin 30) (Fin 15)) = [row_A, row_B]
   \<and> fst (run_screener example_provider chart_written [''A'', ''C'', ''B''] [] (Fin 30) (Fin 15)) = [row_A, row_B]
   \<and> Ticker row_A \<noteq> ''C'' \<and> Ticker row_B \<noteq> ''C''"
proof -
  have d: "\<exists>e. example_provider ''D'' = Inl e"
    by (simp add: example_provider_def)
  have c: "\<exists>finfo data. example_provider ''C'' = Inr (finfo, data)
             \<and> (trailingPE finfo = None \<or> returnOnEquity finfo = None \<or> data = [])"
    by (simp add: example_provider_def)
  have a: "fst (run_screener example_provider chart_written [''A''] [] (Fin 30) (Fin 15)) = [row_A]"
    by (simp add: fst_run_screener List.map_filter_simps ticker_row_examples)
  have b: "fst (run_screener example_provider chart_written [''B''] [] (Fin 30) (Fin 15)) = [row_B]"
    by (simp add: fst_run_screener List.map_filter_simps ticker_row_examples)
  from failed_ticker_skipped [of example_provider "''D''" chart_written "[''A'']" "[''B'']" "[]" "Fin 30" "Fin 15"] d
  have 1: "fst (run_screener example_provider chart_written ([''A''] @ ''D'' # [''B'']) [] (Fin 30) (Fin 15)) =
             [row_A, row_B]"
    by (simp add: a b)
  from failed_ticker_skipped [of example_provider "''C''" chart_written "[''A'']" "[''B'']" "[]"
      "Fin 30" "Fin 15" "[''A'', ''C'', ''B'']"] c
  have 2: "fst (run_screener example_provider chart_written ([''A''] @ ''C'' # [''B'']) [] (Fin 30) (Fin 15)) =
             [row_A, row_B]
           \<and> (\<forall>r \<in> set (fst (run_screener example_provider chart_written [''A'', ''C'', ''B''] [] (Fin 30) (Fin 15))).
                 Ticker r \<noteq> ''C'')"
    by (simp add: a b)
  have 3: "fst (run_screener example_provider chart_written [''A'', ''C'', ''B''] [] (Fin 30) (Fin 15)) =
             [row_A, row_B]"
    using 2 by simp
  with 2 have "Ticker row_A \<noteq> ''C'' \<and> Ticker row_B \<noteq> ''C''"
    by simp
  with 1 2 3 show ?thesis by blast
qed

section \<open>Two runs on the same upstream data\<close>








text \<open>
  The first run of the example: the bundle of A is fetched and stored, that of B comes
  from the store, the two pauses bring the clock to 1002.2, the chart of A and the two
  spreadsheets are written. In the world found 3000 seconds later the entry of B is too
  old and that of A is not: the second run takes A from the store and fetches B again.
\<close>

lemma example_first_run:
  "run_screener_in example_provider chart_written warm_world [''A'', ''B''] [''A''] (Fin 30) (Fin 15) =
     (([row_A, row_B], [row_A]),
      \<lparr>clock = 1002.2,
       cache = [''B'' \<mapsto> (0, \<lparr>trailingPE = Some (Fin 50), returnOnEquity = Some roe_example\<rparr>,
                              short_history),
                ''A'' \<mapsto> (1000, \<lparr>trailingPE = Some (Fin 10), returnOnEquity = Some roe_example\<rparr>,
                              short_history)],
       exports = Some ([row_A, row_B], [row_A]),
       screenshots = [''A''],
       stdout = []\<rparr>)"
  by (simp add: run_screener_in_def screen_ticker_in_def fetch_stock_bundle_def cache_miss_def
      reaches_sleep_def screen_fetched_def warm_world_def example_provider_def chart_written_def
      summary_row_A summary_row_B example_rows_pass short_history_not_empty Let_def)

lemma example_world_found_later:
  "found_later (snd (run_screener_in example_provider chart_written warm_world
                       [''A'', ''B''] [''A''] (Fin 30) (Fin 15))) =
     \<lparr>clock = 4002.2,
      cache = [''B'' \<mapsto> (0, \<lparr>trailingPE = Some (Fin 50), returnOnEquity = Some roe_example\<rparr>,
                             short_history),
               ''A'' \<mapsto> (1000, \<lparr>trailingPE = Some (Fin 10), returnOnEquity = Some roe_example\<rparr>,
                             short_history)],
      exports = None, screenshots = [], stdout = []\<rparr>"
  by (simp add: example_first_run found_later_def)

lemma example_second_run:
  "run_screener_in example_provider chart_written
     (found_later (snd (run_screener_in example_provider chart_written warm_world
                          [''A'', ''B''] [''A''] (Fin 30) (Fin 15))))
     [''A'', ''B''] [''A''] (Fin 30) (Fin 15) =
     (([row_A, row_B], [row_A]),
      \<lparr>clock = 4004.4,
       cache = [''A'' \<mapsto> (1000, \<lparr>trailingPE = Some (Fin 10), returnOnEquity = Some roe_example\<rparr>,
                              short_history),
                ''B'' \<mapsto> (4003.3, \<lparr>trailingPE = Some (Fin 50), returnOnEquity = Some roe_example\<rparr>,
                              short_history)],
       exports = Some ([row_A, row_B], [row_A]),
       screenshots = [''A''],
       stdout = []\<rparr>)"
  unfolding example_world_found_later
  by (simp add: run_screener_in_def screen_ticker_in_def fetch_stock_bundle_def cache_miss_def
      reaches_sleep_def screen_fetched_def example_provider_def chart_written_def
      summary_row_A summary_row_B example_rows_pass short_history_not_empty Let_def)

text \<open>
  The condition on the store is what unchanged upstream data asks of it. When the
  upstream data has changed since a bundle was stored, the old bundle is served while it
  is less than an hour old and the new one is fetched after that: in the world with the
  old bundle of A the run at time 100 and the run at time 4000 return different tables.
\<close>

lemma stale_entry_served:
  "fst (run_screener_in example_provider chart_written (stale_world 100) [''A''] [] (Fin 30) (Fin 15)) =
     ([row_B\<lparr>Ticker := ''A''\<rparr>], [])
   \<and> fst (run_screener_in example_provider chart_written (stale_world 4000) [''A''] [] (Fin 30) (Fin 15)) =
     ([row_A], [row_A])
   \<and> \<not> cache_of_upstream example_provider (stale_world 100)"
proof -
  have row: "summary_row ''A'' (Fin 50) roe_example short_history = row_B\<lparr>Ticker := ''A''\<rparr>"
    using summary_row_B by (simp add: summary_row_def Let_def row_B_def)
  have served: "fst (run_screener_in example_provider chart_written (stale_world 100) [''A''] []
                       (Fin 30) (Fin 15)) = ([row_B\<lparr>Ticker := ''A''\<rparr>], [])"
    by (simp add: run_screener_in_def screen_ticker_in_def fetch_stock_bundle_def
        reaches_sleep_def screen_fetched_def stale_world_def row example_rows_pass
        short_history_not_empty Let_def row_B_def)
  have fetched: "fst (run_screener_in example_provider chart_written (stale_world 4000) [''A''] []
                        (Fin 30) (Fin 15)) = ([row_A], [row_A])"
    by (simp add: run_screener_in_def screen_ticker_in_def fetch_stock_bundle_def cache_miss_def
        reaches_sleep_def screen_fetched_def stale_world_def example_provider_def
        summary_row_A example_rows_pass short_history_not_empty Let_def)
  have "\<not> cache_of_upstream example_provider (stale_world 100)"
    by (auto simp: cache_of_upstream_def stale_world_def example_provider_def)
  with served fetched show ?thesis
    by blast
qed



section \<open>Filter bounds\<close>

text \<open>
  C8, as the code has it. \<open>run_screener\<close> does not validate its filter bounds. Whatever
  the bounds are, every selected ticker is screened, the full table is the one the loop
  collected, and the bounds are used only in the row-by-row comparison that selects the
  filtered table.
\<close>

theorem filter_bounds_not_validated:
  "fst (run_screener fetch plot_chart ts ps max_pe min_roe) = summary_data (screen_all fetch plot_chart ps ts)
   \<and> snd (run_screener fetch plot_chart ts ps max_pe min_roe) =
       filter (\<lambda>r. py_le (PE_Ratio r) max_pe \<and> py_ge (ROE_pct r) min_roe)
         (summary_data (screen_all fetch plot_chart ps ts))"
  by (simp add: run_screener_def Let_def)

text \<open>
  As the specification states it, the property fails: with the negative bound \<open>max_pe_filter = -5\<close> the call is
  not rejected; both tickers are screened and the bound filters every row out.
\<close>

theorem negative_bound_counterexample:
  "run_screener example_provider chart_written [''A'', ''B''] [] (Fin (- 5)) (Fin 15) = ([row_A, row_B], [])"
  by (simp add: prod_eq_iff fst_run_screener snd_run_screener List.map_filter_simps
      ticker_row_examples example_rows_pass)

section \<open>The RSI on finite closes\<close>

lemma gain_raw_Fin:
  "series_where (\<lambda>d. py_gt d (Fin 0)) (Fin 0) (diff (map Fin rs)) =
     map Fin (map (\<lambda>i. if i = 0 then 0 else max (rs ! i - rs ! (i - 1)) 0) [0..<length rs])"
  by (auto simp: series_where_def diff_def py_sub_def py_gt_def max_def)

lemma loss_raw_Fin:
  "series_where (\<lambda>d. py_lt d (Fin 0)) (Fin 0) (diff (map Fin rs)) =
     map Fin (map (\<lambda>i. if i = 0 then 0 else min (rs ! i - rs ! (i - 1)) 0) [0..<length rs])"
  by (auto simp: series_where_def diff_def py_sub_def min_def)

lemma sum_list_window_cong:
  assumes "\<And>i. a \<le> i \<Longrightarrow> i < b \<Longrightarrow> f i = g i"
  shows "(\<Sum>i\<leftarrow>[a..<b]. f i) = (\<Sum>i\<leftarrow>[a..<b]. g i)"
proof -
  have "map f [a..<b] = map g [a..<b]"
    using assms by simp
  then show ?thesis
    by (rule arg_cong)
qed

lemma gain_Fin:
  assumes "w \<le> t" and "t < length rs"
  shows "gain (map Fin rs) w ! t = Fin ((\<Sum>i\<leftarrow>[t + 1 - w..<t + 1]. spec_gain rs i) / real w)"
proof -
  let ?g = "\<lambda>i. if i = 0 then 0 else max (rs ! i - rs ! (i - 1)) 0"
  have len: "t < length (map ?g [0..<length rs])"
    using assms(2) by simp
  have "gain (map Fin rs) w ! t = rolling_mean w (map Fin (map ?g [0..<length rs])) ! t"
    by (simp only: gain_def gain_raw_Fin)
  also have "\<dots> = Fin ((\<Sum>i\<leftarrow>[t + 1 - w..<t + 1]. map ?g [0..<length rs] ! i) / real w)"
    using len assms(1) by (intro rolling_mean_Fin) auto
  also have "(\<Sum>i\<leftarrow>[t + 1 - w..<t + 1]. map ?g [0..<length rs] ! i) =
             (\<Sum>i\<leftarrow>[t + 1 - w..<t + 1]. spec_gain rs i)"
    using assms by (intro sum_list_window_cong) (auto simp: spec_gain_def)
  finally show ?thesis .
qed

lemma neg_mean: "- ((\<Sum>i\<leftarrow>xs. f i) / (c::real)) = (\<Sum>i\<leftarrow>xs. - f i) / c"
  by (induction xs) (simp_all add: add_divide_distrib diff_divide_distrib)

lemma neg_min_0: "- min (d::real) 0 = max (- d) 0"
  by (simp add: min_def max_def)

lemma loss_Fin:
  assumes "w \<le> t" and "t < length rs"
  shows "loss (map Fin rs) w ! t = Fin ((\<Sum>i\<leftarrow>[t + 1 - w..<t + 1]. spec_loss rs i) / real w)"
proof -
  let ?l = "\<lambda>i. if i = 0 then 0 else min (rs ! i - rs ! (i - 1)) 0"
  have len: "t < length (map ?l [0..<length rs])"
    using assms(2) by simp
  have roll: "rolling_mean w (map Fin (map ?l [0..<length rs])) ! t =
          Fin ((\<Sum>i\<leftarrow>[t + 1 - w..<t + 1]. map ?l [0..<length rs] ! i) / real w)"
    using len assms(1) by (intro rolling_mean_Fin) auto
  have "loss (map Fin rs) w ! t = py_neg (rolling_mean w (map Fin (map ?l [0..<length rs])) ! t)"
    using assms(2) by (simp add: loss_def loss_raw_Fin length_rolling_mean)
  also have "\<dots> = Fin (- ((\<Sum>i\<leftarrow>[t + 1 - w..<t + 1]. map ?l [0..<length rs] ! i) / real w))"
    by (simp only: roll py_neg.simps)
  also have "- ((\<Sum>i\<leftarrow>[t + 1 - w..<t + 1]. map ?l [0..<length rs] ! i) / real w) =
             (\<Sum>i\<leftarrow>[t + 1 - w..<t + 1]. - (map ?l [0..<length rs] ! i)) / real w"
    by (rule neg_mean)
  also have "(\<Sum>i\<leftarrow>[t + 1 - w..<t + 1]. - (map ?l [0..<length rs] ! i)) =
             (\<Sum>i\<leftarrow>[t + 1 - w..<t + 1]. spec_loss rs i)"
    using assms by (intro sum_list_window_cong) (auto simp: spec_loss_def neg_min_0)
  finally show ?thesis .
qed

lemma spec_sma14_nonneg: "(\<And>i. 0 \<le> f i) \<Longrightarrow> 0 \<le> spec_sma14 f t"
  unfolding spec_sma14_def by (intro divide_nonneg_nonneg sum_list_nonneg) auto

lemma rsi_value:
  assumes "0 \<le> g" and "0 \<le> l"
  shows "py_sub (Fin 100) (py_div (Fin 100) (py_add (Fin 1) (py_div (Fin g) (Fin l)))) =
           (if l = 0 then (if 0 < g then Fin 100 else NaN)
            else Fin (100 - 100 / (1 + g / l)))"
proof (cases "l = 0")
  case True
  with assms show ?thesis
    by (simp add: py_sub_def)
next
  case False
  with assms have "0 \<le> g / l"
    by simp
  then have "1 + g / l \<noteq> 0"
    by linarith
  with False show ?thesis
    by (simp add: py_sub_def)
qed

lemma calculate_rsi_Fin:
  assumes "14 \<le> t" and "t < length closes"
  shows "calculate_rsi (map Fin closes) 14 ! t = spec_rsi closes t"
proof -
  have w: "t + 1 - 14 = t - 13"
    by simp
  have g: "gain (map Fin closes) 14 ! t = Fin (spec_sma14 (spec_gain closes) t)"
    using gain_Fin [of 14 t closes] assms by (simp add: spec_sma14_def w del: upt_Suc)
  have l: "loss (map Fin closes) 14 ! t = Fin (spec_sma14 (spec_loss closes) t)"
    using loss_Fin [of 14 t closes] assms by (simp add: spec_sma14_def w del: upt_Suc)
  have g0: "0 \<le> spec_sma14 (spec_gain closes) t"
    by (rule spec_sma14_nonneg) (simp add: spec_gain_def)
  have l0: "0 \<le> spec_sma14 (spec_loss closes) t"
    by (rule spec_sma14_nonneg) (simp add: spec_loss_def)
  have "calculate_rsi (map Fin closes) 14 ! t =
          py_sub (Fin 100) (py_div (Fin 100) (py_add (Fin 1)
            (py_div (Fin (spec_sma14 (spec_gain closes) t)) (Fin (spec_sma14 (spec_loss closes) t)))))"
    using assms(2) by (simp add: calculate_rsi_nth g l)
  also have "\<dots> = spec_rsi closes t"
    unfolding spec_rsi_def Let_def by (rule rsi_value [OF g0 l0])
  finally show ?thesis .
qed

lemma rsi_of_infinite_rs:
  "py_sub (Fin 100) (py_div (Fin 100) (py_add (Fin 1) PInf)) = Fin 100"
  "py_sub (Fin 100) (py_div (Fin 100) (py_add (Fin 1) NInf)) = Fin 100"
  by (simp_all add: py_sub_def)

text \<open>
  C3, as the code has it. On a series of finite closes, at a bar \<open>t\<close> with at least 14
  deltas before it, the RSI is \<open>100 - 100 / (1 + avgGain / avgLoss)\<close>, where
  \<open>avgGain\<close> and \<open>avgLoss\<close> are the means over the bars \<open>t-13..t\<close> of
  \<open>max(delta, 0)\<close> and \<open>max(-delta, 0)\<close>; it is 100 when \<open>avgLoss = 0 < avgGain\<close>
  and NaN when both are 0. At a bar with fewer than 13 deltas before it the RSI is
  NaN, on any series.
\<close>

theorem rsi_formula:
  "(14 \<le> t \<and> t < length closes \<longrightarrow>
      calculate_rsi (map Fin closes) 14 ! t = spec_rsi closes t)
   \<and> (t < 13 \<and> t < length series \<longrightarrow> calculate_rsi series 14 ! t = NaN)"
  by (simp add: calculate_rsi_Fin calculate_rsi_warmup)

theorem rsi_formula_witness:
  "calculate_rsi (map Fin mixed_closes) 14 ! 14 = Fin (650 / 7)
   \<and> calculate_rsi (map Fin rising_closes) 14 ! 14 = Fin 100
   \<and> calculate_rsi (map Fin flat_closes) 14 ! 14 = NaN
   \<and> calculate_rsi (map Fin mixed_closes) 14 ! 2 = NaN"
proof -
  have len: "14 < length mixed_closes" "14 < length rising_closes" "14 < length flat_closes"
    "2 < length (map Fin mixed_closes)"
    by (simp_all add: mixed_closes_def rising_closes_def flat_closes_def)
  have spec: "spec_rsi mixed_closes 14 = Fin (650 / 7)" "spec_rsi rising_closes 14 = Fin 100"
    "spec_rsi flat_closes 14 = NaN"
    by code_simp+
  from rsi_formula [of 14 mixed_closes] len spec
  have 1: "calculate_rsi (map Fin mixed_closes) 14 ! 14 = Fin (650 / 7)"
    by simp
  from rsi_formula [of 14 rising_closes] len spec
  have 2: "calculate_rsi (map Fin rising_closes) 14 ! 14 = Fin 100"
    by simp
  from rsi_formula [of 14 flat_closes] len spec
  have 3: "calculate_rsi (map Fin flat_closes) 14 ! 14 = NaN"
    by simp
  from rsi_formula [of 2 mixed_closes "map Fin mixed_closes"] len
  have 4: "calculate_rsi (map Fin mixed_closes) 14 ! 2 = NaN"
    by simp
  from 1 2 3 4 show ?thesis
    by blast
qed

text \<open>
  As the specification states it, the property fails at bar 13, which has 13 deltas before it:
  \<^verbatim>\<open>where(delta > 0, 0)\<close> puts 0 in place of the NaN that \<^verbatim>\<open>diff\<close> leaves at bar 0,
  so the window of bar 13 holds 14 observations and the RSI is defined there.
\<close>

theorem rsi_bar_13_counterexample:
  "diff (map Fin mixed_closes) ! 0 = NaN
   \<and> calculate_rsi (map Fin mixed_closes) 14 ! 13 = Fin (1200 / 13)"
  by code_simp

section \<open>Range of the RSI\<close>

lemma set_observations: "a \<in> set (observations ys) \<longleftrightarrow> Fin a \<in> set ys"
  by (induction ys rule: observations.induct) auto

lemma set_window_at: "set (window_at w xs t) \<subseteq> set xs"
proof -
  have "set (window_at w xs t) \<subseteq> set (take (t + 1) xs)"
    unfolding window_at_def by (rule set_drop_subset)
  also have "\<dots> \<subseteq> set xs"
    by (rule set_take_subset)
  finally show ?thesis .
qed

lemma rolling_mean_nonneg:
  assumes "\<And>a. Fin a \<in> set ys \<Longrightarrow> 0 \<le> a" and "t < length ys"
  shows "rolling_mean w ys ! t = NaN \<or> (\<exists>m. 0 \<le> m \<and> rolling_mean w ys ! t = Fin m)"
proof -
  let ?obs = "observations (window_at w ys t)"
  have "\<And>a. a \<in> set ?obs \<Longrightarrow> 0 \<le> a"
    using assms(1) set_window_at [of w ys t] by (auto simp: set_observations)
  then have "0 \<le> sum_list ?obs / real (length ?obs)"
    by (intro divide_nonneg_nonneg sum_list_nonneg) auto
  then show ?thesis
    using assms(2) by (simp add: rolling_mean_nth)
qed

lemma rolling_mean_nonpos:
  assumes "\<And>a. Fin a \<in> set ys \<Longrightarrow> a \<le> 0" and "t < length ys"
  shows "rolling_mean w ys ! t = NaN \<or> (\<exists>m. m \<le> 0 \<and> rolling_mean w ys ! t = Fin m)"
proof -
  let ?obs = "observations (window_at w ys t)"
  have "\<And>a. a \<in> set ?obs \<Longrightarrow> a \<le> 0"
    using assms(1) set_window_at [of w ys t] by (auto simp: set_observations)
  then have "sum_list ?obs / real (length ?obs) \<le> 0"
    by (intro divide_nonpos_nonneg sum_list_nonpos) auto
  then show ?thesis
    using assms(2) by (simp add: rolling_mean_nth)
qed

lemma gain_raw_nonneg:
  "Fin a \<in> set (series_where (\<lambda>d. py_gt d (Fin 0)) (Fin 0) ds) \<Longrightarrow> 0 \<le> a"
  by (auto simp: series_where_def py_gt_def split: if_splits)

lemma loss_raw_nonpos:
  "Fin a \<in> set (series_where (\<lambda>d. py_lt d (Fin 0)) (Fin 0) ds) \<Longrightarrow> a \<le> 0"
  by (auto simp: series_where_def split: if_splits)

lemma gain_cases:
  assumes "t < length xs"
  shows "gain xs w ! t = NaN \<or> (\<exists>g. 0 \<le> g \<and> gain xs w ! t = Fin g)"
  unfolding gain_def
  using assms by (intro rolling_mean_nonneg gain_raw_nonneg) (simp_all add: length_series_where length_diff)

lemma loss_cases:
  assumes "t < length xs"
  shows "loss xs w ! t = NaN \<or> (\<exists>l. 0 \<le> l \<and> loss xs w ! t = Fin l)"
proof -
  let ?raw = "series_where (\<lambda>d. py_lt d (Fin 0)) (Fin 0) (diff xs)"
  have len: "t < length ?raw"
    using assms by (simp add: length_series_where length_diff)
  have nth: "loss xs w ! t = py_neg (rolling_mean w ?raw ! t)"
    using len by (simp add: loss_def length_rolling_mean)
  have "rolling_mean w ?raw ! t = NaN \<or> (\<exists>m. m \<le> 0 \<and> rolling_mean w ?raw ! t = Fin m)"
    using len by (intro rolling_mean_nonpos loss_raw_nonpos)
  then show ?thesis
    unfolding nth by auto
qed

lemma rsi_value_range:
  assumes "0 \<le> g" and "0 \<le> l"
    and "py_sub (Fin 100) (py_div (Fin 100) (py_add (Fin 1) (py_div (Fin g) (Fin l)))) = Fin r"
  shows "0 \<le> r \<and> r \<le> 100"
proof -
  have eq: "(if l = 0 then (if 0 < g then Fin 100 else NaN)
             else Fin (100 - 100 / (1 + g / l))) = Fin r"
    using assms(3) unfolding rsi_value [OF assms(1,2)] .
  show ?thesis
  proof (cases "l = 0")
  case True
  with eq show ?thesis
    by (simp split: if_splits)
next
  case False
  with assms(1,2) have q: "0 \<le> g / l"
    by simp
  from False eq have r: "r = 100 - 100 / (1 + g / l)"
    by simp
  have pos: "0 < 1 + g / l"
    using q by linarith
  then have "0 \<le> 100 / (1 + g / l)"
    by simp
  moreover have "100 / (1 + g / l) \<le> 100"
    using pos q by (simp add: divide_le_eq)
  ultimately show ?thesis
    unfolding r by linarith
  qed
qed

lemma rsi_in_range:
  assumes t: "t < length series" and a: "calculate_rsi series w ! t = Fin r"
  shows "0 \<le> r \<and> r \<le> 100"
proof -
  have "calculate_rsi series w ! t =
          py_sub (Fin 100) (py_div (Fin 100) (py_add (Fin 1)
            (py_div (gain series w ! t) (loss series w ! t))))"
    using t by (rule calculate_rsi_nth)
  with a have v: "py_sub (Fin 100) (py_div (Fin 100) (py_add (Fin 1)
                    (py_div (gain series w ! t) (loss series w ! t)))) = Fin r"
    by simp
  from gain_cases [OF t, of w] loss_cases [OF t, of w]
  consider (nan) "gain series w ! t = NaN \<or> loss series w ! t = NaN"
    | (fin) g l where "0 \<le> g" "0 \<le> l" "gain series w ! t = Fin g" "loss series w ! t = Fin l"
    by blast
  then show ?thesis
  proof cases
    case nan
    with v show ?thesis
      by (auto simp: py_sub_def py_div_NaN py_add_NaN)
  next
    case fin
    from v show ?thesis
      unfolding fin(3,4) by (rule rsi_value_range [OF fin(1,2)])
  qed
qed

lemma rsi_not_infinite:
  assumes t: "t < length series"
  shows "calculate_rsi series w ! t \<noteq> PInf \<and> calculate_rsi series w ! t \<noteq> NInf"
proof -
  have nth: "calculate_rsi series w ! t =
          py_sub (Fin 100) (py_div (Fin 100) (py_add (Fin 1)
            (py_div (gain series w ! t) (loss series w ! t))))"
    using t by (rule calculate_rsi_nth)
  from gain_cases [OF t, of w] loss_cases [OF t, of w]
  consider (nan) "gain series w ! t = NaN \<or> loss series w ! t = NaN"
    | (fin) g l where "0 \<le> g" "0 \<le> l" "gain series w ! t = Fin g" "loss series w ! t = Fin l"
    by blast
  then show ?thesis
  proof cases
    case nan
    then show ?thesis
      unfolding nth by (auto simp: py_sub_def py_div_NaN py_add_NaN)
  next
    case fin
    show ?thesis
      unfolding nth fin(3,4) rsi_value [OF fin(1,2)] by simp
  qed
qed

text \<open>
  C6, as the code has it. On any series the RSI of a bar is NaN or a finite number, and
  a finite one lies in \<open>[0, 100]\<close>. When the rolling loss of the 14-bar window is zero, the RSI is 100 if the
  rolling gain is positive, and NaN if the rolling gain is zero too.
\<close>

theorem rsi_range_and_zero_loss:
  "(t < length series \<and> calculate_rsi series 14 ! t = Fin r \<longrightarrow> 0 \<le> r \<and> r \<le> 100)
   \<and> (t < length series \<longrightarrow>
        calculate_rsi series 14 ! t \<noteq> PInf \<and> calculate_rsi series 14 ! t \<noteq> NInf)
   \<and> (t < length series \<and> loss series 14 ! t = Fin 0 \<and> gain series 14 ! t = Fin g \<and> 0 < g \<longrightarrow>
        calculate_rsi series 14 ! t = Fin 100)
   \<and> (t < length series \<and> loss series 14 ! t = Fin 0 \<and> gain series 14 ! t = Fin 0 \<longrightarrow>
        calculate_rsi series 14 ! t = NaN)"
proof -
  have 1: "t < length series \<and> calculate_rsi series 14 ! t = Fin r \<longrightarrow> 0 \<le> r \<and> r \<le> 100"
    using rsi_in_range [of t series 14 r] by blast
  have 2: "t < length series \<and> loss series 14 ! t = Fin 0 \<and> gain series 14 ! t = Fin g \<and> 0 < g \<longrightarrow>
        calculate_rsi series 14 ! t = Fin 100"
    by (simp add: calculate_rsi_nth py_sub_def)
  have 3: "t < length series \<and> loss series 14 ! t = Fin 0 \<and> gain series 14 ! t = Fin 0 \<longrightarrow>
        calculate_rsi series 14 ! t = NaN"
    by (simp add: calculate_rsi_nth py_sub_def)
  have 4: "t < length series \<longrightarrow>
        calculate_rsi series 14 ! t \<noteq> PInf \<and> calculate_rsi series 14 ! t \<noteq> NInf"
    using rsi_not_infinite [of t series 14] by blast
  from 1 2 3 4 show ?thesis
    by blast
qed

theorem rsi_range_and_zero_loss_witness:
  "calculate_rsi (map Fin mixed_closes) 14 ! 14 = Fin (650 / 7)
   \<and> (0::real) \<le> 650 / 7 \<and> (650::real) / 7 \<le> 100
   \<and> loss (map Fin rising_closes) 14 ! 14 = Fin 0
   \<and> gain (map Fin rising_closes) 14 ! 14 = Fin 1
   \<and> calculate_rsi (map Fin rising_closes) 14 ! 14 = Fin 100
   \<and> loss (map Fin flat_closes) 14 ! 14 = Fin 0
   \<and> gain (map Fin flat_closes) 14 ! 14 = Fin 0
   \<and> calculate_rsi (map Fin flat_closes) 14 ! 14 = NaN"
proof -
  have len: "14 < length (map Fin mixed_closes)" "14 < length (map Fin rising_closes)"
    "14 < length (map Fin flat_closes)"
    by (simp_all add: mixed_closes_def rising_closes_def flat_closes_def)
  have m: "calculate_rsi (map Fin mixed_closes) 14 ! 14 = Fin (650 / 7)"
    by code_simp
  have r: "loss (map Fin rising_closes) 14 ! 14 = Fin 0" "gain (map Fin rising_closes) 14 ! 14 = Fin 1"
    by code_simp+
  have f: "loss (map Fin flat_closes) 14 ! 14 = Fin 0" "gain (map Fin flat_closes) 14 ! 14 = Fin 0"
    by code_simp+
  from rsi_range_and_zero_loss [of 14 "map Fin mixed_closes" "650 / 7"] len m
  have 1: "(0::real) \<le> 650 / 7 \<and> (650::real) / 7 \<le> 100"
    by blast
  from rsi_range_and_zero_loss [of 14 "map Fin rising_closes" _ 1] len r
  have 2: "calculate_rsi (map Fin rising_closes) 14 ! 14 = Fin 100"
    by simp
  from rsi_range_and_zero_loss [of 14 "map Fin flat_closes"] len f
  have 3: "calculate_rsi (map Fin flat_closes) 14 ! 14 = NaN"
    by simp
  from m 1 2 3 r f show ?thesis
    by blast
qed

text \<open>
  As the specification states it, the property fails: on strictly rising closes the rolling loss of bar 14 is zero
  and the RSI is 100, not NaN.
\<close>

theorem zero_loss_counterexample:
  "loss (map Fin rising_closes) 14 ! 14 = Fin 0
   \<and> calculate_rsi (map Fin rising_closes) 14 ! 14 = Fin 100"
  by code_simp

end
